theory Spec2Isabelle
  imports Main
begin

section \<open>The todo table\<close>

text \<open>
  \<^verbatim>\<open>class Todo(db.Model)\<close> declares three columns. \<^verbatim>\<open>id\<close> is the integer primary
  key; \<^verbatim>\<open>title\<close> and \<^verbatim>\<open>completed\<close> are declared without \<^verbatim>\<open>nullable=False\<close>, so
  both may hold NULL (Python \<^verbatim>\<open>None\<close>). The field for \<^verbatim>\<open>id\<close> is named \<open>id_col\<close>,
  since \<open>id\<close> is the identity function of HOL.
\<close>

record Todo =
  id_col :: int
  title :: "string option"
  completed :: "bool option"

text \<open>
  The database is the SQLite file named in \<^verbatim>\<open>SQLALCHEMY_DATABASE_URI\<close>. The rows of
  the table are kept as a list in the order a full scan returns them (rowid order).
  The primary key column is declared without \<^verbatim>\<open>sqlite_autoincrement\<close>, so it is an
  alias of SQLite's rowid: an insert that gives no id receives 1 in an empty table and
  otherwise one more than the largest id in the table at that moment. (The ids of the
  model are unbounded; SQLite's random fallback at the largest 64-bit rowid is outside it.)
\<close>

definition next_rowid :: "Todo list \<Rightarrow> int" where
  "next_rowid rows = (if rows = [] then 1 else Max (set (map id_col rows)) + 1)"

definition pk_unique :: "Todo list \<Rightarrow> bool" where
  "pk_unique rows = distinct (map id_col rows)"

section \<open>The session\<close>

text \<open>
  \<^verbatim>\<open>db.session\<close> is a unit of work: \<^verbatim>\<open>add\<close>, \<^verbatim>\<open>delete\<close> and attribute assignment
  only record a change; a flush sends the recorded changes to the transaction, and
  \<^verbatim>\<open>commit\<close> flushes and makes the transaction's rows the rows of the database file.
  Queries flush first (autoflush) and read the transaction's rows. The recorded changes
  are applied in the order of the calls; no view of the application records more than
  one change before it commits.
\<close>

datatype change =
  New "string option" "bool option"
| Dirty int "bool option"
| Deleted int

record session =
  committed :: "Todo list"
  txn :: "Todo list"
  pending :: "change list"

fun apply_change :: "Todo list \<Rightarrow> change \<Rightarrow> Todo list" where
  "apply_change rows (New t c) =
     rows @ [\<lparr>id_col = next_rowid rows, title = t, completed = c\<rparr>]"
| "apply_change rows (Dirty i c) =
     map (\<lambda>r. if id_col r = i then r\<lparr>completed := c\<rparr> else r) rows"
| "apply_change rows (Deleted i) = filter (\<lambda>r. id_col r \<noteq> i) rows"

definition flush :: "session \<Rightarrow> session" where
  "flush s = s\<lparr>txn := foldl apply_change (txn s) (pending s), pending := []\<rparr>"

definition session_commit :: "session \<Rightarrow> session" where
  "session_commit s = (let s' = flush s in s'\<lparr>committed := txn s'\<rparr>)"

definition session_add :: "string option \<Rightarrow> bool option \<Rightarrow> session \<Rightarrow> session" where
  "session_add t c s = s\<lparr>pending := pending s @ [New t c]\<rparr>"

text \<open>The exceptions the handlers can raise; none of them is caught in the source.\<close>

datatype error = AttributeError | UnmappedInstanceError | OverflowError | BuildError

text \<open>\<^verbatim>\<open>db.session.delete(None)\<close> raises: \<^verbatim>\<open>None\<close> is not a mapped instance.\<close>

definition session_delete :: "Todo option \<Rightarrow> session \<Rightarrow> (error + unit) \<times> session" where
  "session_delete obj s =
     (case obj of
        None \<Rightarrow> (Inl UnmappedInstanceError, s)
      | Some t \<Rightarrow> (Inr (), s\<lparr>pending := pending s @ [Deleted (id_col t)]\<rparr>))"

definition set_completed :: "Todo \<Rightarrow> bool \<Rightarrow> session \<Rightarrow> session" where
  "set_completed t b s = s\<lparr>pending := pending s @ [Dirty (id_col t) (Some b)]\<rparr>"

definition query_all :: "session \<Rightarrow> Todo list \<times> session" where
  "query_all s = (let s' = flush s in (txn s', s'))"

text \<open>
  \<^verbatim>\<open>Todo.query.filter_by(id=id).first()\<close> hands the id to SQLite as a query parameter.
  An SQLite INTEGER has 64 bits, and the driver raises \<^verbatim>\<open>OverflowError\<close> for a Python
  \<^verbatim>\<open>int\<close> outside that range, before any row is read. Every id that SQLite stores is
  inside the range, so an id outside it is the id of no row: the lookup returns the first
  row with the id when there is one, \<^verbatim>\<open>None\<close> for an absent id that SQLite can hold,
  and raises for an absent id that it cannot hold.
\<close>

definition sqlite_integer :: "int \<Rightarrow> bool" where
  "sqlite_integer i = (- (2 ^ 63) \<le> i \<and> i < 2 ^ 63)"

definition query_filter_by_id_first ::
  "int \<Rightarrow> session \<Rightarrow> (error + Todo option) \<times> session" where
  "query_filter_by_id_first i s =
     (let s' = flush s in
      case find (\<lambda>r. id_col r = i) (txn s') of
        Some t \<Rightarrow> (Inr (Some t), s')
      | None \<Rightarrow>
          if sqlite_integer i then (Inr None, s') else (Inl OverflowError, s'))"

text \<open>Python's \<^verbatim>\<open>not\<close> on a nullable boolean: \<^verbatim>\<open>not None\<close> is \<^verbatim>\<open>True\<close>.\<close>

fun py_not :: "bool option \<Rightarrow> bool" where
  "py_not None = True"
| "py_not (Some b) = (\<not> b)"

section \<open>Requests and responses\<close>

datatype response =
  Body string
| Rendered string "Todo list"
| Redirect string

text \<open>
  A view that returns a string or a rendered template answers 200, \<^verbatim>\<open>redirect\<close>
  answers 302, and an exception that leaves the view is answered with 500.
\<close>

fun status_code :: "error + response \<Rightarrow> nat" where
  "status_code (Inl e) = 500"
| "status_code (Inr (Body b)) = 200"
| "status_code (Inr (Rendered t todos)) = 200"
| "status_code (Inr (Redirect loc)) = 302"

text \<open>
  The routes of the \<^verbatim>\<open>@app.route\<close> decorators that \<^verbatim>\<open>url_for\<close> can build without
  arguments; any other endpoint name is a build error.
\<close>

definition url_map :: "(string \<times> string) list" where
  "url_map = [(''say_hello'', ''/''), (''get_tasks'', ''/todos''), (''create'', ''/todos/create'')]"

definition url_for :: "string \<Rightarrow> string option" where
  "url_for endpoint = map_of url_map endpoint"

definition redirect :: "string \<Rightarrow> session \<Rightarrow> (error + response) \<times> session" where
  "redirect endpoint s =
     (case url_for endpoint of
        None \<Rightarrow> (Inl BuildError, s)
      | Some loc \<Rightarrow> (Inr (Redirect loc), s))"

text \<open>\<^verbatim>\<open>request.form.get(key)\<close>: the first value sent for the key, \<^verbatim>\<open>None\<close> without one.\<close>

definition form_get :: "(string \<times> string) list \<Rightarrow> string \<Rightarrow> string option" where
  "form_get form key = map_of form key"

section \<open>The views\<close>

definition say_hello :: "session \<Rightarrow> (error + response) \<times> session" where
  "say_hello s = (Inr (Body ''Hello, World!''), s)"

definition get_tasks :: "session \<Rightarrow> (error + response) \<times> session" where
  "get_tasks s = (let (todos, s1) = query_all s in (Inr (Rendered ''base.html'' todos), s1))"

definition create :: "(string \<times> string) list \<Rightarrow> session \<Rightarrow> (error + response) \<times> session" where
  "create form s =
     (let title = form_get form ''title'';
          s1 = session_add title (Some False) s;
          s2 = session_commit s1
      in redirect ''get_tasks'' s2)"

definition update :: "int \<Rightarrow> session \<Rightarrow> (error + response) \<times> session" where
  "update i s =
     (let (todo, s1) = query_filter_by_id_first i s in
      case todo of
        Inl e \<Rightarrow> (Inl e, s1)
      | Inr None \<Rightarrow> (Inl AttributeError, s1)
      | Inr (Some t) \<Rightarrow>
          (let s2 = set_completed t (py_not (completed t)) s1;
               s3 = session_commit s2
           in redirect ''get_tasks'' s3))"

definition delete :: "int \<Rightarrow> session \<Rightarrow> (error + response) \<times> session" where
  "delete i s =
     (let (todo, s1) = query_filter_by_id_first i s in
      case todo of
        Inl e \<Rightarrow> (Inl e, s1)
      | Inr obj \<Rightarrow>
          (case session_delete obj s1 of
             (Inl e, s2) \<Rightarrow> (Inl e, s2)
           | (Inr u, s2) \<Rightarrow>
               (let s3 = session_commit s2
                in redirect ''get_tasks'' s3)))"

text \<open>
  One request: the view runs in a fresh session on the database, and at the end of the
  request the session is removed, so that only what was committed remains.
\<close>

definition serve ::
  "(session \<Rightarrow> (error + response) \<times> session) \<Rightarrow> Todo list \<Rightarrow> (error + response) \<times> Todo list" where
  "serve view db =
     (let (r, s) = view \<lparr>committed = db, txn = db, pending = []\<rparr> in (r, committed s))"

text \<open>
  The \<^verbatim>\<open><int:id>\<close> converter of the two id routes accepts decimal digits only, of any
  length: the id of a request is a natural number without an upper bound.
\<close>

datatype request =
  GET_root
| GET_todos
| POST_create "(string \<times> string) list"
| GET_update nat
| GET_delete nat

fun dispatch :: "request \<Rightarrow> Todo list \<Rightarrow> (error + response) \<times> Todo list" where
  "dispatch GET_root db = serve say_hello db"
| "dispatch GET_todos db = serve get_tasks db"
| "dispatch (POST_create form) db = serve (create form) db"
| "dispatch (GET_update n) db = serve (update (int n)) db"
| "dispatch (GET_delete n) db = serve (delete (int n)) db"

fun run :: "request list \<Rightarrow> Todo list \<Rightarrow> Todo list" where
  "run [] db = db"
| "run (r # rs) db = run rs (snd (dispatch r db))"

section \<open>What one request does to the database\<close>

lemma url_for_get_tasks: "url_for ''get_tasks'' = Some ''/todos''"
  by (simp add: url_for_def url_map_def)

lemma serve_say_hello: "serve say_hello db = (Inr (Body ''Hello, World!''), db)"
  by (simp add: serve_def say_hello_def)

lemma serve_get_tasks: "serve get_tasks db = (Inr (Rendered ''base.html'' db), db)"
  by (simp add: serve_def get_tasks_def query_all_def flush_def)

lemma serve_create:
  "serve (create form) db =
     (Inr (Redirect ''/todos''),
      db @ [\<lparr>id_col = next_rowid db, title = form_get form ''title'', completed = Some False\<rparr>])"
  by (simp add: serve_def create_def session_add_def session_commit_def flush_def
      redirect_def url_for_get_tasks Let_def)

lemma serve_update_found:
  "find (\<lambda>r. id_col r = i) db = Some t \<Longrightarrow>
   serve (update i) db =
     (Inr (Redirect ''/todos''),
      map (\<lambda>r. if id_col r = id_col t then r\<lparr>completed := Some (py_not (completed t))\<rparr> else r) db)"
  by (simp add: serve_def update_def query_filter_by_id_first_def set_completed_def
      session_commit_def flush_def redirect_def url_for_get_tasks)

lemma serve_lookup:
  "fst (query_filter_by_id_first i \<lparr>committed = db, txn = db, pending = []\<rparr>) =
     (case find (\<lambda>r. id_col r = i) db of
        Some t \<Rightarrow> Inr (Some t)
      | None \<Rightarrow> if sqlite_integer i then Inr None else Inl OverflowError)"
  by (simp add: query_filter_by_id_first_def flush_def split: option.splits)

lemma serve_update_missing:
  "find (\<lambda>r. id_col r = i) db = None \<Longrightarrow>
   serve (update i) db = (Inl (if sqlite_integer i then AttributeError else OverflowError), db)"
  by (simp add: serve_def update_def query_filter_by_id_first_def flush_def)

lemma serve_delete_found:
  "find (\<lambda>r. id_col r = i) db = Some t \<Longrightarrow>
   serve (delete i) db = (Inr (Redirect ''/todos''), filter (\<lambda>r. id_col r \<noteq> id_col t) db)"
  by (simp add: serve_def delete_def query_filter_by_id_first_def session_delete_def
      session_commit_def flush_def redirect_def url_for_get_tasks)

lemma serve_delete_missing:
  "find (\<lambda>r. id_col r = i) db = None \<Longrightarrow>
   serve (delete i) db =
     (Inl (if sqlite_integer i then UnmappedInstanceError else OverflowError), db)"
  by (simp add: serve_def delete_def query_filter_by_id_first_def session_delete_def flush_def)

lemma find_id_col: "find (\<lambda>r. id_col r = i) db = Some t \<Longrightarrow> id_col t = i \<and> t \<in> set db"
  by (induction db) (auto split: if_splits)

lemma find_None_iff_absent: "find (\<lambda>r. id_col r = i) db = None \<longleftrightarrow> i \<notin> id_col ` set db"
  by (induction db) auto

lemma pk_unique_same_id:
  "pk_unique db \<Longrightarrow> t \<in> set db \<Longrightarrow> r \<in> set db \<Longrightarrow> id_col r = id_col t \<Longrightarrow> r = t"
  unfolding pk_unique_def by (auto simp: distinct_map dest: inj_onD)

lemma find_present:
  "pk_unique db \<Longrightarrow> t \<in> set db \<Longrightarrow> find (\<lambda>r. id_col r = id_col t) db = Some t"
proof (induction db)
  case Nil
  then show ?case by simp
next
  case (Cons a db)
  show ?case
  proof (cases "id_col a = id_col t")
    case True
    with Cons.prems have "a = t"
      using pk_unique_same_id [of "a # db" t a] by simp
    then show ?thesis by simp
  next
    case False
    with Cons show ?thesis by (auto simp: pk_unique_def)
  qed
qed

lemma filter_other_ids:
  "pk_unique db \<Longrightarrow> t \<in> set db \<Longrightarrow> filter (\<lambda>r. id_col r \<noteq> id_col t) db = remove1 t db"
proof (induction db)
  case Nil
  then show ?case by simp
next
  case (Cons a db)
  show ?case
  proof (cases "a = t")
    case True
    with Cons.prems have "\<forall>r\<in>set db. id_col r \<noteq> id_col t"
      by (auto simp: pk_unique_def image_iff)
    with True show ?thesis by simp
  next
    case False
    with Cons.prems have "id_col a \<noteq> id_col t"
      using pk_unique_same_id [of "a # db" t a] by auto
    with False Cons show ?thesis by (auto simp: pk_unique_def)
  qed
qed

lemma next_rowid_greater: "t \<in> set db \<Longrightarrow> id_col t < next_rowid db"
proof -
  assume t: "t \<in> set db"
  then have "id_col t \<le> Max (set (map id_col db))" by simp
  with t show ?thesis by (auto simp: next_rowid_def)
qed

lemma next_rowid_fresh: "next_rowid db \<notin> id_col ` set db"
  using next_rowid_greater by fastforce

lemma snd_dispatch:
  "snd (dispatch r db) =
     (case r of
        GET_root \<Rightarrow> db
      | GET_todos \<Rightarrow> db
      | POST_create form \<Rightarrow>
          db @ [\<lparr>id_col = next_rowid db, title = form_get form ''title'', completed = Some False\<rparr>]
      | GET_update n \<Rightarrow>
          (case find (\<lambda>r. id_col r = int n) db of
             None \<Rightarrow> db
           | Some t \<Rightarrow>
               map (\<lambda>r. if id_col r = int n then r\<lparr>completed := Some (py_not (completed t))\<rparr> else r) db)
      | GET_delete n \<Rightarrow> filter (\<lambda>r. id_col r \<noteq> int n) db)"
proof (cases r)
  case (GET_update n)
  then show ?thesis
    by (cases "find (\<lambda>r. id_col r = int n) db")
      (auto simp: serve_update_missing serve_update_found dest: find_id_col)
next
  case (GET_delete n)
  show ?thesis
  proof (cases "find (\<lambda>r. id_col r = int n) db")
    case None
    then have "\<forall>r\<in>set db. id_col r \<noteq> int n"
      by (force simp: find_None_iff_absent)
    with None GET_delete show ?thesis by (simp add: serve_delete_missing)
  next
    case (Some t)
    with GET_delete show ?thesis
      by (auto simp: serve_delete_found dest: find_id_col)
  qed
qed (simp_all add: serve_say_hello serve_get_tasks serve_create)

lemma map_id_col_toggle:
  "map id_col (map (\<lambda>r. if id_col r = i then r\<lparr>completed := c\<rparr> else r) db) = map id_col db"
  by (induction db) auto

lemma dispatch_pk_unique: "pk_unique db \<Longrightarrow> pk_unique (snd (dispatch r db))"
  unfolding snd_dispatch pk_unique_def
  by (cases r) (auto simp: next_rowid_fresh distinct_map_filter map_id_col_toggle
      simp del: map_map split: option.splits)

lemma run_pk_unique: "pk_unique db \<Longrightarrow> pk_unique (run reqs db)"
  by (induction reqs arbitrary: db) (simp_all add: dispatch_pk_unique)

lemma dispatch_flags_defined:
  "\<forall>t\<in>set db. completed t \<noteq> None \<Longrightarrow> \<forall>t\<in>set (snd (dispatch r db)). completed t \<noteq> None"
  unfolding snd_dispatch by (cases r) (auto split: option.splits)

lemma run_flags_defined:
  "\<forall>t\<in>set db. completed t \<noteq> None \<Longrightarrow> \<forall>t\<in>set (run reqs db). completed t \<noteq> None"
proof (induction reqs arbitrary: db)
  case Nil
  then show ?case by simp
next
  case (Cons r reqs)
  from Cons.prems have "\<forall>t\<in>set (snd (dispatch r db)). completed t \<noteq> None"
    by (rule dispatch_flags_defined)
  then have "\<forall>t\<in>set (run reqs (snd (dispatch r db))). completed t \<noteq> None"
    by (rule Cons.IH)
  then show ?case by simp
qed


section \<open>Lookups under a unique primary key\<close>

lemma update_present:
  assumes "pk_unique db" and "t \<in> set db" and "id_col t = int n"
  shows "dispatch (GET_update n) db =
     (Inr (Redirect ''/todos''),
      map (\<lambda>r. if id_col r = int n then r\<lparr>completed := Some (py_not (completed t))\<rparr> else r) db)"
  using find_present [OF assms(1,2)] assms(3) by (simp add: serve_update_found)

lemma toggle_back:
  assumes "pk_unique db" and "t \<in> set db" and "completed t = Some b"
  shows "map (\<lambda>r. if id_col r = id_col t then r\<lparr>completed := Some b\<rparr> else r) db = db"
proof -
  have "(if id_col r = id_col t then r\<lparr>completed := Some b\<rparr> else r) = r" if "r \<in> set db" for r
    using pk_unique_same_id [OF assms(1,2) that] assms(3) by auto
  then show ?thesis by (simp add: map_idI)
qed

section \<open>The claims\<close>

text \<open>
  C1. Every create request appends one todo to the table, with the value of the
  \<^verbatim>\<open>title\<close> form field as its title and \<^verbatim>\<open>completed = False\<close>, commits it, and
  answers with a 302 redirect to the list view \<^verbatim>\<open>/todos\<close>. Creating "Buy milk" in an
  empty database and then listing renders exactly that one record.
\<close>

theorem create_adds_todo_and_redirects:
  "dispatch (POST_create form) db =
     (Inr (Redirect ''/todos''),
      db @ [\<lparr>id_col = next_rowid db, title = form_get form ''title'', completed = Some False\<rparr>])
   \<and> status_code (fst (dispatch (POST_create form) db)) = 302
   \<and> url_for ''get_tasks'' = Some ''/todos''
   \<and> fst (dispatch GET_todos (snd (dispatch (POST_create [(''title'', ''Buy milk'')]) []))) =
       Inr (Rendered ''base.html'' [\<lparr>id_col = 1, title = Some ''Buy milk'', completed = Some False\<rparr>])"
  by (simp add: serve_create serve_get_tasks url_for_get_tasks next_rowid_def form_get_def)

text \<open>
  C2. For a todo \<open>t\<close> stored under a unique id, with the boolean flag \<open>b\<close>, the update
  request redirects to the list view and leaves the todo with the flag \<open>\<not> b\<close>; two
  updates in a row give back the table as it was.
\<close>

theorem update_toggles_completed:
  assumes "pk_unique db" and "t \<in> set db" and "id_col t = int n" and "completed t = Some b"
  shows "fst (dispatch (GET_update n) db) = Inr (Redirect ''/todos'')
    \<and> find (\<lambda>r. id_col r = int n) (snd (dispatch (GET_update n) db)) = Some (t\<lparr>completed := Some (\<not> b)\<rparr>)
    \<and> run [GET_update n, GET_update n] db = db"
proof -
  let ?t' = "t\<lparr>completed := Some (\<not> b)\<rparr>"
  let ?db' = "map (\<lambda>r. if id_col r = int n then r\<lparr>completed := Some (\<not> b)\<rparr> else r) db"
  have one: "dispatch (GET_update n) db = (Inr (Redirect ''/todos''), ?db')"
    using update_present [OF assms(1-3)] assms(4) by simp
  have pk': "pk_unique ?db'"
    using assms(1) by (simp add: pk_unique_def map_id_col_toggle del: map_map)
  have in': "?t' \<in> set ?db'"
    using assms(2,3) by force
  have found: "find (\<lambda>r. id_col r = int n) ?db' = Some ?t'"
    using find_present [OF pk' in'] assms(3) by simp
  have "dispatch (GET_update n) ?db' =
      (Inr (Redirect ''/todos''),
       map (\<lambda>r. if id_col r = int n then r\<lparr>completed := Some (py_not (completed ?t'))\<rparr> else r) ?db')"
    using assms(3) by (intro update_present [OF pk' in']) simp
  also have "map (\<lambda>r. if id_col r = int n then r\<lparr>completed := Some (py_not (completed ?t'))\<rparr> else r) ?db'
      = map (\<lambda>r. if id_col r = id_col t then r\<lparr>completed := Some b\<rparr> else r) db"
    using assms(3) by auto
  also have "\<dots> = db"
    using assms(1,2,4) by (rule toggle_back)
  finally have two: "dispatch (GET_update n) ?db' = (Inr (Redirect ''/todos''), db)" .
  from one two found show ?thesis by simp
qed

theorem update_toggles_completed_witness:
  "find (\<lambda>r. id_col r = 1)
     (snd (dispatch (GET_update 1) [\<lparr>id_col = 1, title = Some ''Buy milk'', completed = Some False\<rparr>]))
     = Some \<lparr>id_col = 1, title = Some ''Buy milk'', completed = Some True\<rparr>
   \<and> run [GET_update 1, GET_update 1] [\<lparr>id_col = 1, title = Some ''Buy milk'', completed = Some False\<rparr>]
     = [\<lparr>id_col = 1, title = Some ''Buy milk'', completed = Some False\<rparr>]"
  using update_toggles_completed
    [of "[\<lparr>id_col = 1, title = Some ''Buy milk'', completed = Some False\<rparr>]"
        "\<lparr>id_col = 1, title = Some ''Buy milk'', completed = Some False\<rparr>" 1 False]
  by (simp add: pk_unique_def)

text \<open>
  Against C3 as stated: the id 9223372036854775808 is stored in no table and is
  accepted by the route, but its lookup does not yield an absent result. The lookup
  itself raises \<^verbatim>\<open>OverflowError\<close>, and that error, not one of a later mutation or
  removal, ends the update and the delete request.
\<close>

theorem lookup_overflow_counterexample:
  "fst (query_filter_by_id_first 9223372036854775808 \<lparr>committed = [], txn = [], pending = []\<rparr>)
     = Inl OverflowError
   \<and> fst (query_filter_by_id_first 9223372036854775808 \<lparr>committed = [], txn = [], pending = []\<rparr>)
     \<noteq> Inr None
   \<and> dispatch (GET_update 9223372036854775808) [] = (Inl OverflowError, [])
   \<and> dispatch (GET_delete 9223372036854775808) [] = (Inl OverflowError, [])"
  by (simp add: serve_lookup serve_update_missing serve_delete_missing sqlite_integer_def)

text \<open>
  C3, amended. For an id that no stored todo has, the update and the delete request
  both fail with an unhandled error, answered with 500 and never with a redirect or a
  404. For an id below \<open>2\<^sup>6\<^sup>3\<close> the lookup yields an absent result and the next step
  raises: \<^verbatim>\<open>AttributeError\<close> on \<^verbatim>\<open>None.completed\<close> in update,
  \<^verbatim>\<open>UnmappedInstanceError\<close> on \<^verbatim>\<open>db.session.delete(None)\<close> in delete. For an id of
  \<open>2\<^sup>6\<^sup>3\<close> or more the lookup itself raises \<^verbatim>\<open>OverflowError\<close> in both.
\<close>

theorem missing_id_is_unhandled_error:
  assumes "int n \<notin> id_col ` set db"
  shows "fst (query_filter_by_id_first (int n) \<lparr>committed = db, txn = db, pending = []\<rparr>) =
      (if int n < 2 ^ 63 then Inr None else Inl OverflowError)
    \<and> fst (dispatch (GET_update n) db) =
      Inl (if int n < 2 ^ 63 then AttributeError else OverflowError)
    \<and> fst (dispatch (GET_delete n) db) =
      Inl (if int n < 2 ^ 63 then UnmappedInstanceError else OverflowError)
    \<and> status_code (fst (dispatch (GET_update n) db)) = 500
    \<and> status_code (fst (dispatch (GET_delete n) db)) = 500"
proof -
  have absent: "find (\<lambda>r. id_col r = int n) db = None"
    using assms by (simp add: find_None_iff_absent)
  have range: "sqlite_integer (int n) \<longleftrightarrow> int n < 2 ^ 63"
    by (simp add: sqlite_integer_def)
  show ?thesis
    by (simp add: serve_lookup serve_update_missing serve_delete_missing absent range)
qed

theorem missing_id_is_unhandled_error_witness:
  "fst (dispatch (GET_update 7) [\<lparr>id_col = 1, title = Some ''Buy milk'', completed = Some False\<rparr>])
     = Inl AttributeError
   \<and> fst (dispatch (GET_delete 7) [\<lparr>id_col = 1, title = Some ''Buy milk'', completed = Some False\<rparr>])
     = Inl UnmappedInstanceError
   \<and> fst (dispatch (GET_update 9223372036854775808)
        [\<lparr>id_col = 1, title = Some ''Buy milk'', completed = Some False\<rparr>])
     = Inl OverflowError
   \<and> fst (dispatch (GET_delete 9223372036854775808)
        [\<lparr>id_col = 1, title = Some ''Buy milk'', completed = Some False\<rparr>])
     = Inl OverflowError"
  using missing_id_is_unhandled_error
    [of 7 "[\<lparr>id_col = 1, title = Some ''Buy milk'', completed = Some False\<rparr>]"]
    missing_id_is_unhandled_error
    [of 9223372036854775808 "[\<lparr>id_col = 1, title = Some ''Buy milk'', completed = Some False\<rparr>]"]
  by simp

text \<open>
  C4. For a todo \<open>t\<close> stored under a unique id, the delete request commits the table
  without \<open>t\<close> and redirects to the list view: every other record stays, in its place,
  and a list request that follows renders the table without \<open>t\<close>.
\<close>

theorem delete_removes_exactly_that_todo:
  assumes "pk_unique db" and "t \<in> set db" and "id_col t = int n"
  shows "dispatch (GET_delete n) db = (Inr (Redirect ''/todos''), remove1 t db)
    \<and> set (snd (dispatch (GET_delete n) db)) = set db - {t}
    \<and> fst (dispatch GET_todos (snd (dispatch (GET_delete n) db))) =
        Inr (Rendered ''base.html'' (remove1 t db))
    \<and> t \<notin> set (remove1 t db)"
proof -
  have "distinct db"
    using assms(1) by (simp add: pk_unique_def distinct_map)
  then have rest: "set (remove1 t db) = set db - {t}"
    by simp
  have "dispatch (GET_delete n) db =
      (Inr (Redirect ''/todos''), filter (\<lambda>r. id_col r \<noteq> id_col t) db)"
    using find_present [OF assms(1,2)] assms(3) by (simp add: serve_delete_found)
  then have "dispatch (GET_delete n) db = (Inr (Redirect ''/todos''), remove1 t db)"
    using filter_other_ids [OF assms(1,2)] by simp
  with rest show ?thesis by (simp add: serve_get_tasks)
qed

theorem delete_removes_exactly_that_todo_witness:
  "dispatch (GET_delete 1)
     [\<lparr>id_col = 1, title = Some ''Buy milk'', completed = Some False\<rparr>,
      \<lparr>id_col = 2, title = Some ''Walk dog'', completed = Some True\<rparr>]
   = (Inr (Redirect ''/todos''), [\<lparr>id_col = 2, title = Some ''Walk dog'', completed = Some True\<rparr>])"
  using delete_removes_exactly_that_todo
    [of "[\<lparr>id_col = 1, title = Some ''Buy milk'', completed = Some False\<rparr>,
          \<lparr>id_col = 2, title = Some ''Walk dog'', completed = Some True\<rparr>]"
        "\<lparr>id_col = 1, title = Some ''Buy milk'', completed = Some False\<rparr>" 1]
  by (simp add: pk_unique_def)

text \<open>
  C5. For a todo \<open>t\<close> stored under a unique id, the update request keeps the number
  of records, the id and the title of every record, and every record other than \<open>t\<close>
  as a whole: only the completed flag of \<open>t\<close> can differ.
\<close>

theorem update_changes_only_completed:
  assumes "pk_unique db" and "t \<in> set db" and "id_col t = int n"
  shows "length (snd (dispatch (GET_update n) db)) = length db
    \<and> (\<forall>k<length db.
          id_col (snd (dispatch (GET_update n) db) ! k) = id_col (db ! k)
        \<and> title (snd (dispatch (GET_update n) db) ! k) = title (db ! k)
        \<and> (db ! k \<noteq> t \<longrightarrow> snd (dispatch (GET_update n) db) ! k = db ! k))"
proof -
  have other: "id_col (db ! k) \<noteq> int n" if "k < length db" and "db ! k \<noteq> t" for k
    using pk_unique_same_id [OF assms(1,2), of "db ! k"] that assms(3) by auto
  show ?thesis
    unfolding update_present [OF assms] by (auto simp: other)
qed

theorem update_changes_only_completed_witness:
  "snd (dispatch (GET_update 1)
     [\<lparr>id_col = 1, title = Some ''Buy milk'', completed = Some False\<rparr>,
      \<lparr>id_col = 2, title = Some ''Walk dog'', completed = Some True\<rparr>]) ! 1
   = \<lparr>id_col = 2, title = Some ''Walk dog'', completed = Some True\<rparr>
   \<and> title (snd (dispatch (GET_update 1)
     [\<lparr>id_col = 1, title = Some ''Buy milk'', completed = Some False\<rparr>,
      \<lparr>id_col = 2, title = Some ''Walk dog'', completed = Some True\<rparr>]) ! 0) = Some ''Buy milk''"
  using update_changes_only_completed
    [of "[\<lparr>id_col = 1, title = Some ''Buy milk'', completed = Some False\<rparr>,
          \<lparr>id_col = 2, title = Some ''Walk dog'', completed = Some True\<rparr>]"
        "\<lparr>id_col = 1, title = Some ''Buy milk'', completed = Some False\<rparr>" 1]
  by (simp add: pk_unique_def)

text \<open>
  C6. On an empty table the list request is answered with 200 and the template
  rendered on the empty list; the list request raises no error on any table.
\<close>

theorem list_of_empty_store:
  "dispatch GET_todos [] = (Inr (Rendered ''base.html'' []), [])
   \<and> status_code (fst (dispatch GET_todos [])) = 200
   \<and> (\<exists>page. fst (dispatch GET_todos db) = Inr page)"
  by (simp add: serve_get_tasks)

text \<open>
  Against C7 as stated: a create request that sends no \<^verbatim>\<open>title\<close> field stores
  NULL as the title, which is neither the empty string nor any other string.
\<close>

theorem missing_title_counterexample:
  "run [POST_create []] [] = [\<lparr>id_col = 1, title = None, completed = Some False\<rparr>]
   \<and> title (hd (run [POST_create []] [])) \<noteq> Some ''''"
  by (simp add: serve_create next_rowid_def form_get_def)

text \<open>
  C7, amended. Every todo in a table that requests built from the empty database has
  a defined boolean completion state. The title that a create request stores is the
  value of the \<^verbatim>\<open>title\<close> form field: a string when the field was sent, and NULL
  exactly when the request has no such field.
\<close>

theorem persisted_columns:
  "(\<forall>t\<in>set (run reqs []). \<exists>b. completed t = Some b)
   \<and> title (last (snd (dispatch (POST_create form) db))) = form_get form ''title''
   \<and> (title (last (snd (dispatch (POST_create form) db))) = None \<longleftrightarrow> ''title'' \<notin> fst ` set form)"
proof -
  have "\<forall>t\<in>set (run reqs []). completed t \<noteq> None"
    by (rule run_flags_defined) simp
  then show ?thesis
    by (auto simp: serve_create form_get_def map_of_eq_None_iff)
qed

theorem persisted_columns_witness:
  "completed (hd (run [POST_create [(''title'', ''Buy milk'')], GET_update 1] [])) = Some True
   \<and> title (last (snd (dispatch (POST_create [(''title'', ''Buy milk'')]) []))) = Some ''Buy milk''
   \<and> title (last (snd (dispatch (POST_create []) []))) = None"
  using persisted_columns [of "[POST_create [(''title'', ''Buy milk'')], GET_update 1]" "[]" "[]"]
    persisted_columns [of "[]" "[(''title'', ''Buy milk'')]" "[]"]
  by (simp add: serve_create serve_update_found next_rowid_def form_get_def)

text \<open>
  Against C8 as stated: the first create receives id 1, the todo is deleted, and the
  next create receives id 1 again.
\<close>

theorem id_reused_counterexample:
  "run [POST_create [(''title'', ''Buy milk'')]] []
     = [\<lparr>id_col = 1, title = Some ''Buy milk'', completed = Some False\<rparr>]
   \<and> run [POST_create [(''title'', ''Buy milk'')], GET_delete 1] [] = []
   \<and> run [POST_create [(''title'', ''Buy milk'')], GET_delete 1, POST_create [(''title'', ''Walk dog'')]] []
     = [\<lparr>id_col = 1, title = Some ''Walk dog'', completed = Some False\<rparr>]"
  by (simp add: serve_create serve_delete_found next_rowid_def form_get_def)

text \<open>
  C8, amended. The id of a todo is assigned by the table at creation and is unique
  among the stored todos: a create request adds one record whose id is chosen by the
  table and differs from the id of every todo stored at that moment, and after every
  sequence of requests the ids of the stored todos are pairwise distinct.
\<close>

theorem created_id_is_fresh_and_ids_stay_unique:
  assumes "pk_unique db"
  shows "(\<exists>t. snd (dispatch (POST_create form) db) = db @ [t]
          \<and> id_col t = next_rowid db \<and> id_col t \<notin> id_col ` set db)
    \<and> pk_unique (snd (dispatch (POST_create form) db))
    \<and> pk_unique (run reqs db)
    \<and> pk_unique (run reqs [])"
proof -
  have "pk_unique (snd (dispatch (POST_create form) db))"
    using assms by (rule dispatch_pk_unique)
  moreover have "pk_unique (run reqs db)"
    using assms by (rule run_pk_unique)
  moreover have "pk_unique (run reqs [])"
    by (rule run_pk_unique) (simp add: pk_unique_def)
  ultimately show ?thesis
    by (simp add: serve_create next_rowid_fresh)
qed

theorem created_id_is_fresh_and_ids_stay_unique_witness:
  "pk_unique [\<lparr>id_col = 3, title = Some ''Buy milk'', completed = Some False\<rparr>]
   \<and> snd (dispatch (POST_create [(''title'', ''Walk dog'')])
        [\<lparr>id_col = 3, title = Some ''Buy milk'', completed = Some False\<rparr>])
     = [\<lparr>id_col = 3, title = Some ''Buy milk'', completed = Some False\<rparr>,
        \<lparr>id_col = 4, title = Some ''Walk dog'', completed = Some False\<rparr>]
   \<and> pk_unique (run [POST_create [(''title'', ''Walk dog'')], GET_delete 3]
        [\<lparr>id_col = 3, title = Some ''Buy milk'', completed = Some False\<rparr>])"
  using created_id_is_fresh_and_ids_stay_unique
    [of "[\<lparr>id_col = 3, title = Some ''Buy milk'', completed = Some False\<rparr>]"
        "[(''title'', ''Walk dog'')]" "[POST_create [(''title'', ''Walk dog'')], GET_delete 3]"]
  by (simp add: pk_unique_def next_rowid_def serve_create form_get_def)

text \<open>
  C9. On every table the root route answers 200 with the same greeting and leaves the
  table as it is; the view returns its session untouched, whatever the session holds.
\<close>

theorem say_hello_is_static:
  "dispatch GET_root db = (Inr (Body ''Hello, World!''), db)
   \<and> status_code (fst (dispatch GET_root db)) = 200
   \<and> say_hello s = (Inr (Body ''Hello, World!''), s)"
  by (simp add: serve_say_hello say_hello_def)

text \<open>
  C10. For an id that no stored todo has, the update and the delete request fail, and
  the table after the failed request is exactly the table before it: a list request
  afterwards renders what it would have rendered before.
\<close>

theorem failed_request_leaves_store_unchanged:
  assumes "int n \<notin> id_col ` set db"
  shows "isl (fst (dispatch (GET_update n) db))
    \<and> snd (dispatch (GET_update n) db) = db
    \<and> isl (fst (dispatch (GET_delete n) db))
    \<and> snd (dispatch (GET_delete n) db) = db
    \<and> fst (dispatch GET_todos (snd (dispatch (GET_update n) db))) = fst (dispatch GET_todos db)
    \<and> fst (dispatch GET_todos (snd (dispatch (GET_delete n) db))) = fst (dispatch GET_todos db)"
  using assms by (simp add: serve_update_missing serve_delete_missing find_None_iff_absent)

theorem failed_request_leaves_store_unchanged_witness:
  "snd (dispatch (GET_update 7) [\<lparr>id_col = 1, title = Some ''Buy milk'', completed = Some False\<rparr>])
     = [\<lparr>id_col = 1, title = Some ''Buy milk'', completed = Some False\<rparr>]
   \<and> snd (dispatch (GET_delete 7) [\<lparr>id_col = 1, title = Some ''Buy milk'', completed = Some False\<rparr>])
     = [\<lparr>id_col = 1, title = Some ''Buy milk'', completed = Some False\<rparr>]
   \<and> isl (fst (dispatch (GET_update 7) [\<lparr>id_col = 1, title = Some ''Buy milk'', completed = Some False\<rparr>]))
   \<and> isl (fst (dispatch (GET_delete 7) [\<lparr>id_col = 1, title = Some ''Buy milk'', completed = Some False\<rparr>]))"
  using failed_request_leaves_store_unchanged
    [of 7 "[\<lparr>id_col = 1, title = Some ''Buy milk'', completed = Some False\<rparr>]"]
  by simp

end
